theory Spec2Isabelle
  imports Complex_Main
begin

section \<open>Python values used by \<open>copulas/bivariate/base.py\<close>\<close>

text \<open>
  \<^verbatim>\<open>class CopulaTypes(Enum)\<close>: the four families, with their member names as
  \<^verbatim>\<open>CopulaTypes.__members__\<close> lists them.
\<close>

datatype CopulaTypes = CLAYTON | FRANK | GUMBEL | INDEPENDENCE

fun member_name :: "CopulaTypes \<Rightarrow> string" where
  "member_name CLAYTON = ''CLAYTON''"
| "member_name FRANK = ''FRANK''"
| "member_name GUMBEL = ''GUMBEL''"
| "member_name INDEPENDENCE = ''INDEPENDENCE''"

definition members :: "string \<Rightarrow> CopulaTypes option" where
  "members s =
     (if s = ''CLAYTON'' then Some CLAYTON
      else if s = ''FRANK'' then Some FRANK
      else if s = ''GUMBEL'' then Some GUMBEL
      else if s = ''INDEPENDENCE'' then Some INDEPENDENCE
      else None)"

text \<open>
  A Python float as far as the comparisons of the source see it: a finite value, the two
  infinities (a family's \<^verbatim>\<open>theta_interval\<close> may be unbounded) and NaN (what
  \<^verbatim>\<open>kendalltau\<close> gives on constant columns). Rounding is not modelled: finite values are
  reals. The integer literals of the source (\<^verbatim>\<open>1\<close>, \<^verbatim>\<open>-1\<close>) compare as the same numbers.
\<close>

datatype pyfloat = Fin real | PInf | NInf | NaN

text \<open>\<^verbatim>\<open>a <= b\<close>, \<^verbatim>\<open>a < b\<close> and \<^verbatim>\<open>a == b\<close> on floats: every comparison with NaN is false.\<close>

fun fle :: "pyfloat \<Rightarrow> pyfloat \<Rightarrow> bool" where
  "fle NaN b = False"
| "fle a NaN = False"
| "fle NInf b = True"
| "fle a PInf = True"
| "fle (Fin a) (Fin b) = (a \<le> b)"
| "fle PInf b = False"
| "fle (Fin a) NInf = False"


fun feq :: "pyfloat \<Rightarrow> pyfloat \<Rightarrow> bool" where
  "feq NaN b = False"
| "feq a NaN = False"
| "feq a b = (a = b)"

text \<open>
  The values an attribute of a model, a constructor argument or an entry of a parameter
  dictionary can hold: \<^verbatim>\<open>None\<close>, a number, a string, a member of \<^verbatim>\<open>CopulaTypes\<close>.
\<close>

datatype pyval = PyNone | PyFloat pyfloat | PyStr string | PyEnum CopulaTypes

text \<open>
  Truth value of an object, as \<^verbatim>\<open>not self.theta\<close> takes it: \<^verbatim>\<open>None\<close>, zero and the empty
  string are false; infinities, NaN and enum members are true.
\<close>

fun truthy :: "pyval \<Rightarrow> bool" where
  "truthy PyNone = False"
| "truthy (PyFloat (Fin x)) = (x \<noteq> 0)"
| "truthy (PyFloat f) = True"
| "truthy (PyStr s) = (s \<noteq> [])"
| "truthy (PyEnum t) = True"

text \<open>
  The exceptions the source raises or runs into. The three \<^verbatim>\<open>ValueError\<close>s of the source
  are told apart by their message; \<open>Unpack\<close> is the \<^verbatim>\<open>ValueError\<close> of an unpacking
  assignment with the wrong number of values, \<open>Shape\<close> the one numpy raises on a negative
  size or on columns of different lengths.
\<close>

datatype message = InvalidCopulaType | ThetaOutOfLimits | CorrelationRange | Unpack | Shape

datatype exn =
    ValueError message
  | NotFittedError
  | NotImplementedError
  | TypeError
  | KeyError
  | AttributeError

text \<open>\<^verbatim>\<open>str.upper()\<close> on ASCII strings (a \<open>char\<close> is a byte).\<close>

definition upper_char :: "char \<Rightarrow> char" where
  "upper_char c =
     (case map_of (zip ''abcdefghijklmnopqrstuvwxyz'' ''ABCDEFGHIJKLMNOPQRSTUVWXYZ'') c of
        Some C \<Rightarrow> C
      | None \<Rightarrow> c)"

definition str_upper :: "string \<Rightarrow> string" where
  "str_upper s = map upper_char s"

section \<open>Classes and instances\<close>

text \<open>
  The attributes of an instance: \<^verbatim>\<open>theta\<close> and \<^verbatim>\<open>tau\<close> (class attributes \<^verbatim>\<open>None\<close> until
  assigned) and \<^verbatim>\<open>random_seed\<close> (assigned by \<^verbatim>\<open>__init__\<close>).
\<close>

record attrs =
  theta :: pyval
  tau :: pyval
  random_seed :: pyval

text \<open>
  A class of the hierarchy under \<^verbatim>\<open>Bivariate\<close>: its class attributes and the methods a
  family overrides. A method receives the attributes of \<^verbatim>\<open>self\<close>.
\<close>

record klass =
  name :: string
  copula_type :: "CopulaTypes option"
  theta_interval :: "pyfloat list"
  invalid_thetas :: "pyfloat list"
  compute_theta :: "attrs \<Rightarrow> exn + pyval"
  cumulative_distribution :: "attrs \<Rightarrow> (real \<times> real) list \<Rightarrow> exn + real list"
  percent_point :: "attrs \<Rightarrow> real list \<Rightarrow> real list \<Rightarrow> exn + real list"
  partial_derivative :: "attrs \<Rightarrow> (real \<times> real) list \<Rightarrow> real \<Rightarrow> exn + real list"

record model = attrs +
  cls :: klass

definition self_attrs :: "model \<Rightarrow> attrs" where
  "self_attrs self = \<lparr>theta = theta self, tau = tau self, random_seed = random_seed self\<rparr>"

text \<open>
  The base class as \<^verbatim>\<open>base.py\<close> declares it: no family, empty \<^verbatim>\<open>theta_interval\<close> and
  \<^verbatim>\<open>invalid_thetas\<close>, and every kernel method raising \<^verbatim>\<open>NotImplementedError\<close>.
\<close>

definition Bivariate :: klass where
  "Bivariate =
     \<lparr>name = ''Bivariate'', copula_type = None, theta_interval = [], invalid_thetas = [],
      compute_theta = (\<lambda>a. Inl NotImplementedError),
      cumulative_distribution = (\<lambda>a X. Inl NotImplementedError),
      percent_point = (\<lambda>a y V. Inl NotImplementedError),
      partial_derivative = (\<lambda>a X y. Inl NotImplementedError)\<rparr>"

section \<open>Validation\<close>

text \<open>
  \<^verbatim>\<open>Bivariate.check_theta\<close>. The unpacking of \<^verbatim>\<open>theta_interval\<close> needs exactly two values;
  comparing a \<^verbatim>\<open>theta\<close> that is no number with the bounds is a \<^verbatim>\<open>TypeError\<close>; building the
  message reads \<^verbatim>\<open>self.copula_type.name\<close>, an \<^verbatim>\<open>AttributeError\<close> on a class with no family.
\<close>

definition check_theta :: "model \<Rightarrow> exn + unit" where
  "check_theta self =
     (case theta_interval (cls self) of
        [lower, upper] \<Rightarrow>
          (case theta self of
             PyFloat x \<Rightarrow>
               if (\<not> (fle lower x \<and> fle x upper)) \<or> list_ex (feq x) (invalid_thetas (cls self))
               then (case copula_type (cls self) of
                       None \<Rightarrow> Inl AttributeError
                     | Some t \<Rightarrow> Inl (ValueError ThetaOutOfLimits))
               else Inr ()
           | _ \<Rightarrow> Inl TypeError)
      | _ \<Rightarrow> Inl (ValueError Unpack))"

text \<open>\<^verbatim>\<open>Bivariate.check_fit\<close>.\<close>

definition check_fit :: "model \<Rightarrow> exn + unit" where
  "check_fit self = (if \<not> truthy (theta self) then Inl NotFittedError else check_theta self)"

section \<open>Fitting\<close>

text \<open>
  Modelled from the spec: \<^verbatim>\<open>split_matrix\<close> of \<^verbatim>\<open>copulas.bivariate.utils\<close> is not among the
  sources; section 4.2 reads the observations as two columns, so it returns the column of
  first and the column of second coordinates.
\<close>

definition split_matrix :: "(real \<times> real) list \<Rightarrow> real list \<times> real list" where
  "split_matrix X = (map fst X, map snd X)"

text \<open>\<^verbatim>\<open>Bivariate._compute_theta\<close>: assign what the family's \<^verbatim>\<open>compute_theta\<close> returns, then
  validate. The result is the outcome together with the model as the call leaves it.\<close>

definition compute_theta_and_check :: "model \<Rightarrow> (exn + unit) \<times> model" where
  "compute_theta_and_check self =
     (case compute_theta (cls self) (self_attrs self) of
        Inl e \<Rightarrow> (Inl e, self)
      | Inr v \<Rightarrow> (let self' = self\<lparr>theta := v\<rparr> in (check_theta self', self')))"

text \<open>
  \<^verbatim>\<open>Bivariate.fit\<close>. \<^verbatim>\<open>scipy.stats.kendalltau\<close> is a library function: its first result is
  the parameter \<open>kendalltau\<close>.
\<close>

definition fit ::
  "(real list \<Rightarrow> real list \<Rightarrow> pyfloat) \<Rightarrow> (real \<times> real) list \<Rightarrow> model \<Rightarrow> (exn + unit) \<times> model"
where
  "fit kendalltau X self =
     (case split_matrix X of
        (U, V) \<Rightarrow> compute_theta_and_check (self\<lparr>tau := PyFloat (kendalltau U V)\<rparr>))"

section \<open>The subclass scan and the constructor\<close>

text \<open>A class together with what \<^verbatim>\<open>__subclasses__()\<close> returns for it, recursively.\<close>

datatype hierarchy = Class klass "hierarchy list"

fun class_of :: "hierarchy \<Rightarrow> klass" where
  "class_of (Class k hs) = k"

text \<open>\<^verbatim>\<open>Bivariate._get_subclasses\<close>: each direct subclass, followed by its own subclasses.\<close>

fun get_subclasses :: "hierarchy \<Rightarrow> klass list" where
  "get_subclasses (Class k hs) = concat (map (\<lambda>h. class_of h # get_subclasses h) hs)"

text \<open>
  The state the constructor reads and writes: the class attribute \<^verbatim>\<open>_subclasses\<close> of
  \<^verbatim>\<open>Bivariate\<close> (empty until the first scan) and the classes loaded under \<^verbatim>\<open>Bivariate\<close>.
\<close>

record registry =
  subclasses_cache :: "klass list"
  loaded :: hierarchy

text \<open>\<^verbatim>\<open>Bivariate.subclasses\<close>: scan only while the cached list is empty.\<close>

definition subclasses :: "registry \<Rightarrow> klass list \<times> registry" where
  "subclasses r =
     (if subclasses_cache r = []
      then (let s = get_subclasses (loaded r) in (s, r\<lparr>subclasses_cache := s\<rparr>))
      else (subclasses_cache r, r))"

text \<open>\<^verbatim>\<open>object.__new__\<close>: a fresh instance; \<^verbatim>\<open>theta\<close> and \<^verbatim>\<open>tau\<close> read the class attributes.\<close>

definition object_new :: "klass \<Rightarrow> model" where
  "object_new k = \<lparr>theta = PyNone, tau = PyNone, random_seed = PyNone, cls = k\<rparr>"

text \<open>
  The family a \<^verbatim>\<open>copula_type\<close> argument denotes: a member of \<^verbatim>\<open>CopulaTypes\<close> itself, or a
  string whose upper case is a member name; anything else is the \<^verbatim>\<open>ValueError\<close>.
\<close>

fun resolve :: "pyval \<Rightarrow> exn + CopulaTypes" where
  "resolve (PyEnum t) = Inr t"
| "resolve (PyStr s) =
     (case members (str_upper s) of
        Some t \<Rightarrow> Inr t
      | None \<Rightarrow> Inl (ValueError InvalidCopulaType))"
| "resolve v = Inl (ValueError InvalidCopulaType)"

text \<open>
  A \<^verbatim>\<open>copula_type\<close> argument denotes the family \<open>t\<close>: it is that member, or a string
  that spells its name in any mix of upper and lower case.
\<close>

fun denotes :: "pyval \<Rightarrow> CopulaTypes \<Rightarrow> bool" where
  "denotes (PyEnum t') t = (t' = t)"
| "denotes (PyStr s) t = (str_upper s = member_name t)"
| "denotes v t = False"

text \<open>
  \<^verbatim>\<open>Bivariate.__new__\<close>, called on \<^verbatim>\<open>Bivariate\<close>. The result is \<open>None\<close> when the loop over
  the scanned subclasses ends without a \<^verbatim>\<open>return\<close>.
\<close>

definition new :: "registry \<Rightarrow> pyval \<Rightarrow> (exn + model option) \<times> registry" where
  "new r ctype =
     (if ctype = PyNone then (Inr (Some (object_new (class_of (loaded r)))), r)
      else (case resolve ctype of
              Inl e \<Rightarrow> (Inl e, r)
            | Inr t \<Rightarrow>
                (case subclasses r of
                   (subs, r') \<Rightarrow>
                     (case find (\<lambda>subclass. copula_type subclass = Some t) subs of
                        Some subclass \<Rightarrow> (Inr (Some (object_new subclass)), r')
                      | None \<Rightarrow> (Inr None, r')))))"

text \<open>\<^verbatim>\<open>Bivariate.__init__\<close>.\<close>

definition init :: "model \<Rightarrow> pyval \<Rightarrow> pyval \<Rightarrow> model" where
  "init self ctype seed = self\<lparr>random_seed := seed\<rparr>"

text \<open>
  The expression \<^verbatim>\<open>Bivariate(copula_type=..., random_seed=...)\<close>: \<^verbatim>\<open>__new__\<close>, then
  \<^verbatim>\<open>__init__\<close> when \<^verbatim>\<open>__new__\<close> returned an instance; a \<^verbatim>\<open>None\<close> is returned as it is.
\<close>

definition construct :: "registry \<Rightarrow> pyval \<Rightarrow> pyval \<Rightarrow> (exn + model option) \<times> registry" where
  "construct r ctype seed =
     (case new r ctype of
        (Inl e, r') \<Rightarrow> (Inl e, r')
      | (Inr None, r') \<Rightarrow> (Inr None, r')
      | (Inr (Some obj), r') \<Rightarrow> (Inr (Some (init obj ctype seed)), r'))"

section \<open>Parameter dictionaries\<close>



section \<open>Queries\<close>


text \<open>\<^verbatim>\<open>Bivariate.partial_derivative_scalar\<close> on single values \<open>U\<close> and \<open>V\<close>.\<close>

definition partial_derivative_scalar :: "model \<Rightarrow> real \<Rightarrow> real \<Rightarrow> real \<Rightarrow> exn + real list" where
  "partial_derivative_scalar self U V y =
     (case check_fit self of
        Inl e \<Rightarrow> Inl e
      | Inr u \<Rightarrow> partial_derivative (cls self) (self_attrs self) [(U, V)] y)"

text \<open>\<^verbatim>\<open>Bivariate.cdf\<close>, the shortcut to \<^verbatim>\<open>cumulative_distribution\<close>.\<close>

definition cdf :: "model \<Rightarrow> (real \<times> real) list \<Rightarrow> exn + real list" where
  "cdf self X = cumulative_distribution (cls self) (self_attrs self) X"


section \<open>Parts outside the sources, for evaluation on concrete inputs\<close>

text \<open>All pairs of distinct positions of a list, earlier element first.\<close>

fun pairs :: "'a list \<Rightarrow> ('a \<times> 'a) list" where
  "pairs [] = []"
| "pairs (x # xs) = map (Pair x) xs @ pairs xs"

text \<open>
  Modelled from the spec: \<^verbatim>\<open>scipy.stats.kendalltau\<close> is a library function; section 4.2
  takes it to be the standard rank-concordance statistic with the tau-b correction for
  ties: concordant minus discordant pairs, over the geometric mean of the numbers of
  pairs not tied in the first and not tied in the second column; NaN when a column is
  constant or there are fewer than two rows.
\<close>

definition kendalltau_b :: "real list \<Rightarrow> real list \<Rightarrow> pyfloat" where
  "kendalltau_b U V =
     (let ps = pairs (zip U V);
          con = length (filter (\<lambda>((x1, y1), (x2, y2)). 0 < (x1 - x2) * (y1 - y2)) ps);
          dis = length (filter (\<lambda>((x1, y1), (x2, y2)). (x1 - x2) * (y1 - y2) < 0) ps);
          xtie = length (filter (\<lambda>((x1, y1), (x2, y2)). x1 = x2 \<and> y1 \<noteq> y2) ps);
          ytie = length (filter (\<lambda>((x1, y1), (x2, y2)). x1 \<noteq> x2 \<and> y1 = y2) ps);
          d = (con + dis + xtie) * (con + dis + ytie)
      in if d = 0 then NaN else Fin ((real con - real dis) / sqrt (real d)))"

text \<open>
  Modelled from the spec: the Clayton subclass is not among the sources. The spec gives
  each family a closed interval of valid \<open>\<theta>\<close> and a closed-form relation from \<open>\<tau>\<close> to
  \<open>\<theta>\<close>; the interval \<open>[0, \<infinity>]\<close> and the relation \<open>\<theta> = 2\<tau> / (1 - \<tau>)\<close> are the ones under
  which the fit of section 8 and of \<^verbatim>\<open>tests/copulas/bivariate/test_clayton.py\<close> comes out
  (\<open>\<tau> \<approx> 0.01449275\<close> gives \<open>\<theta> \<approx> 0.0294117\<close>). The kernel methods, which nothing below
  evaluates, are left as \<^verbatim>\<open>Bivariate\<close> has them.
\<close>

fun clayton_compute_theta :: "attrs \<Rightarrow> exn + pyval" where
  "clayton_compute_theta a =
     (case tau a of
        PyFloat (Fin t) \<Rightarrow>
          if t = 1 then Inr (PyFloat PInf) else Inr (PyFloat (Fin (2 * t / (1 - t))))
      | PyFloat PInf \<Rightarrow> Inr (PyFloat NaN)
      | PyFloat NInf \<Rightarrow> Inr (PyFloat NaN)
      | PyFloat NaN \<Rightarrow> Inr (PyFloat NaN)
      | _ \<Rightarrow> Inl TypeError)"

definition Clayton :: klass where
  "Clayton =
     Bivariate\<lparr>name := ''Clayton'', copula_type := Some CLAYTON,
       theta_interval := [Fin 0, PInf], invalid_thetas := [],
       compute_theta := clayton_compute_theta\<rparr>"

text \<open>
  Modelled from the spec: the Independence subclass is not among the sources. Section 4.1
  describes it: \<open>\<theta>\<close> is always 0, the distribution is the product of the marginals and
  sampling draws independent uniforms, so the inverse conditional returns its level
  unchanged.
\<close>

definition Independence :: klass where
  "Independence =
     Bivariate\<lparr>name := ''Independence'', copula_type := Some INDEPENDENCE,
       theta_interval := [Fin 0, Fin 0], invalid_thetas := [],
       compute_theta := (\<lambda>a. Inr (PyFloat (Fin 0))),
       cumulative_distribution := (\<lambda>a X. Inr (map (\<lambda>(u, v). u * v) X)),
       percent_point := (\<lambda>a y V. Inr y)\<rparr>"


text \<open>
  Two states of the class hierarchy before any scan: \<^verbatim>\<open>base.py\<close> alone, where \<^verbatim>\<open>Bivariate\<close>
  has no subclass, and \<^verbatim>\<open>Bivariate\<close> with the Clayton family as its only subclass.
\<close>

definition base_only :: registry where
  "base_only = \<lparr>subclasses_cache = [], loaded = Class Bivariate []\<rparr>"

definition clayton_only :: registry where
  "clayton_only = \<lparr>subclasses_cache = [], loaded = Class Bivariate [Class Clayton []]\<rparr>"


section \<open>Auxiliary facts\<close>

lemma members_member_name: "members (member_name t) = Some t"
  by (cases t) (simp_all add: members_def)

lemma members_Some_iff: "members s = Some t \<longleftrightarrow> s = member_name t"
  by (cases t) (auto simp: members_def split: if_splits)





section \<open>The claims\<close>

subsection \<open>Validation of \<^verbatim>\<open>theta\<close>\<close>



subsection \<open>Fitting and the fit check\<close>


lemma kendalltau_b_four_rows:
  "kendalltau_b (map fst [(1, 2), (2, 4), (3, 1), (4, 3)]) (map snd [(1, 2), (2, 4), (3, 1), (4, 3)])
     = Fin 0"
  by (simp add: kendalltau_b_def)

lemma fit_clayton_four_rows:
  "fit kendalltau_b [(1, 2), (2, 4), (3, 1), (4, 3)] (object_new Clayton) =
     (Inr (), (object_new Clayton)\<lparr>tau := PyFloat (Fin 0), theta := PyFloat (Fin 0)\<rparr>)"
  using kendalltau_b_four_rows
  by (simp add: fit_def split_matrix_def compute_theta_and_check_def self_attrs_def
      object_new_def Clayton_def check_theta_def)




text \<open>
  Claim C2. \<^verbatim>\<open>check_fit\<close> raises \<^verbatim>\<open>NotFittedError\<close> exactly when \<^verbatim>\<open>theta\<close> is false as a truth
  value: when it is unset, as the claim says, but also when it is the number zero, for
  which the claim promises that the check passes.
\<close>

theorem check_fit_not_fitted_iff_falsy:
  "(check_fit self = Inl NotFittedError \<longleftrightarrow> \<not> truthy (theta self)) \<and>
   (theta self = PyNone \<longrightarrow> check_fit self = Inl NotFittedError) \<and>
   (theta self = PyFloat (Fin 0) \<longrightarrow>
      check_fit self = Inl NotFittedError \<and>
      partial_derivative_scalar self U V y = Inl NotFittedError)"
  by (auto simp: check_fit_def partial_derivative_scalar_def check_theta_def
      split: list.splits pyval.splits option.splits if_splits)

text \<open>
  Claim C2 at a failing input: the Clayton model fitted on four rows with \<open>\<tau> = 0\<close> has
  \<open>\<theta> = 0\<close>, which \<^verbatim>\<open>check_theta\<close> accepts, and the query guarded by \<^verbatim>\<open>check_fit\<close> still
  reports the model as not fitted.
\<close>

theorem check_fit_not_fitted_iff_falsy_witness:
  "fit kendalltau_b [(1, 2), (2, 4), (3, 1), (4, 3)] (object_new Clayton) =
     (Inr (), (object_new Clayton)\<lparr>tau := PyFloat (Fin 0), theta := PyFloat (Fin 0)\<rparr>) \<and>
   check_theta ((object_new Clayton)\<lparr>tau := PyFloat (Fin 0), theta := PyFloat (Fin 0)\<rparr>) = Inr () \<and>
   check_fit ((object_new Clayton)\<lparr>tau := PyFloat (Fin 0), theta := PyFloat (Fin 0)\<rparr>) =
     Inl NotFittedError \<and>
   partial_derivative_scalar
     ((object_new Clayton)\<lparr>tau := PyFloat (Fin 0), theta := PyFloat (Fin 0)\<rparr>) (1 / 2) (1 / 2) 0 =
     Inl NotFittedError"
  using check_fit_not_fitted_iff_falsy
    [of "(object_new Clayton)\<lparr>tau := PyFloat (Fin 0), theta := PyFloat (Fin 0)\<rparr>" "1 / 2" "1 / 2" 0]
    fit_clayton_four_rows
  by (simp add: object_new_def Clayton_def check_theta_def)

subsection \<open>The constructor\<close>

lemma member_name_inj: "member_name a = member_name b \<longleftrightarrow> a = b"
  by (cases a; cases b) simp_all

lemma resolve_Inr_iff: "resolve ctype = Inr t \<longleftrightarrow> denotes ctype t"
  by (cases ctype)
    (auto simp: members_Some_iff members_member_name member_name_inj split: option.splits)



lemma construct_not_found:
  assumes "resolve ctype = Inr t"
      and "find (\<lambda>k. copula_type k = Some t) (fst (subclasses r)) = None"
  shows "construct r ctype seed = (Inr None, snd (subclasses r))"
proof -
  from assms(1) have n: "ctype \<noteq> PyNone" by auto
  obtain subs r' where sr: "subclasses r = (subs, r')" by (cases "subclasses r")
  with assms n show ?thesis
    by (simp add: construct_def new_def)
qed





lemma subclasses_clayton_only:
  "subclasses clayton_only = ([Clayton], clayton_only\<lparr>subclasses_cache := [Clayton]\<rparr>)"
  by (simp add: subclasses_def clayton_only_def Let_def)

lemma subclasses_base_only: "subclasses base_only = ([], base_only)"
  by (simp add: subclasses_def base_only_def)

lemma copula_type_Clayton: "copula_type Clayton = Some CLAYTON"
  by (simp add: Clayton_def)




text \<open>
  Claim C10. When \<^verbatim>\<open>copula_type\<close> denotes a member of \<^verbatim>\<open>CopulaTypes\<close> and no scanned subclass
  has that member as its family, \<^verbatim>\<open>__new__\<close> leaves its loop without a \<^verbatim>\<open>return\<close>: the
  constructor expression is \<^verbatim>\<open>None\<close>, no instance is made and nothing is raised.
\<close>

theorem construct_none_when_unregistered:
  assumes "denotes ctype t"
      and "\<forall>k \<in> set (fst (subclasses r)). copula_type k \<noteq> Some t"
  shows "fst (new r ctype) = Inr None \<and>
         construct r ctype seed = (Inr None, snd (subclasses r))"
proof -
  from assms(1) have res: "resolve ctype = Inr t" by (simp add: resolve_Inr_iff)
  then have n: "ctype \<noteq> PyNone" by auto
  from assms(2) have f: "find (\<lambda>k. copula_type k = Some t) (fst (subclasses r)) = None"
    by (auto simp: find_None_iff)
  obtain subs r' where sr: "subclasses r = (subs, r')" by (cases "subclasses r")
  have "fst (new r ctype) = Inr None"
    using res n f sr by (simp add: new_def)
  with construct_not_found [OF res f] show ?thesis by simp
qed

text \<open>
  Claim C10 on \<^verbatim>\<open>base.py\<close> alone and with Clayton as the only subclass.
\<close>

theorem construct_none_when_unregistered_witness:
  "fst (new base_only (PyStr ''Gumbel'')) = Inr None \<and>
   construct base_only (PyStr ''Gumbel'') PyNone = (Inr None, base_only) \<and>
   construct clayton_only (PyEnum INDEPENDENCE) PyNone =
     (Inr None, clayton_only\<lparr>subclasses_cache := [Clayton]\<rparr>)"
proof -
  have d: "denotes (PyStr ''Gumbel'') GUMBEL"
    by (simp add: str_upper_def upper_char_def)
  have u: "\<forall>k \<in> set (fst (subclasses base_only)). copula_type k \<noteq> Some GUMBEL"
    by (simp add: subclasses_base_only)
  have d': "denotes (PyEnum INDEPENDENCE) INDEPENDENCE" by simp
  have u': "\<forall>k \<in> set (fst (subclasses clayton_only)). copula_type k \<noteq> Some INDEPENDENCE"
    by (simp add: subclasses_clayton_only copula_type_Clayton)
  show ?thesis
    using construct_none_when_unregistered [OF d u, of PyNone]
      construct_none_when_unregistered [OF d' u', of PyNone]
    by (simp add: subclasses_base_only subclasses_clayton_only)
qed

subsection \<open>Parameter dictionaries\<close>








subsection \<open>Sampling\<close>






subsection \<open>The distribution function\<close>

text \<open>
  \<^verbatim>\<open>Bivariate.cdf\<close> on the base class only raises: the closed forms are the families'. For
  Independence, the one family whose distribution function the spec gives, the values on
  the boundary of the unit square are exact.
\<close>

lemma cdf_base_not_implemented: "cdf (object_new Bivariate) X = Inl NotImplementedError"
  by (simp add: cdf_def object_new_def Bivariate_def)

lemma cdf_independence_boundary:
  "cls self = Independence \<Longrightarrow>
     cdf self [(u, 0), (0, v), (1, v), (u, 1)] = Inr [0, 0, v, u]"
  by (simp add: cdf_def Independence_def)

end
